theory Spec2Isabelle
  imports Main "HOL-Library.Signed_Division"
begin

section \<open>Go values used by the dashboard\<close>

text \<open>
  Go strings are byte sequences and are modelled as \<^typ>\<open>string\<close>. Go's \<open>int\<close> is
  modelled as \<^typ>\<open>int\<close>: every cursor and panel number below stays within the length
  of a list, so 64-bit wrap-around never comes into play. An index expression
  \<open>xs[i]\<close> panics outside \<open>0 \<le> i < len(xs)\<close>; the panic is a value of the model.
\<close>

datatype panic = IndexOutOfRange

definition index :: "'a list \<Rightarrow> int \<Rightarrow> panic + 'a" where
  "index xs i = (if 0 \<le> i \<and> i < int (length xs) then Inr (xs ! nat i) else Inl IndexOutOfRange)"

definition newline :: char where
  "newline = CHR 0x0A"

definition carriage_return :: char where
  "carriage_return = CHR 0x0D"

text \<open>
  \<open>strings.TrimSpace\<close> removes all leading and trailing white space, as defined by
  Unicode: it decodes the string as UTF-8 from the front, and then from the back,
  and drops every code point for which \<open>unicode.IsSpace\<close> holds. Those are U+0009 to
  U+000D, U+0020, U+0085, U+00A0, U+1680, U+2000 to U+200A, U+2028, U+2029, U+202F,
  U+205F and U+3000; \<open>whiteSpace\<close> lists their UTF-8 encodings. A string begins
  (ends) with a white-space code point exactly when it begins (ends) with one of
  these byte sequences: a byte that is not part of a valid encoding decodes to
  U+FFFD with width 1, which is not white space. \<open>spaceWidth\<close> is the width of the
  white-space code point at the front, or \<open>0\<close> when there is none.
\<close>

definition whiteSpace :: "string list" where
  "whiteSpace =
     [[CHR 0x09], [CHR 0x0A], [CHR 0x0B], [CHR 0x0C], [CHR 0x0D], [CHR 0x20],
      [CHR 0xC2, CHR 0x85], [CHR 0xC2, CHR 0xA0],
      [CHR 0xE1, CHR 0x9A, CHR 0x80],
      [CHR 0xE2, CHR 0x80, CHR 0x80], [CHR 0xE2, CHR 0x80, CHR 0x81],
      [CHR 0xE2, CHR 0x80, CHR 0x82], [CHR 0xE2, CHR 0x80, CHR 0x83],
      [CHR 0xE2, CHR 0x80, CHR 0x84], [CHR 0xE2, CHR 0x80, CHR 0x85],
      [CHR 0xE2, CHR 0x80, CHR 0x86], [CHR 0xE2, CHR 0x80, CHR 0x87],
      [CHR 0xE2, CHR 0x80, CHR 0x88], [CHR 0xE2, CHR 0x80, CHR 0x89],
      [CHR 0xE2, CHR 0x80, CHR 0x8A],
      [CHR 0xE2, CHR 0x80, CHR 0xA8], [CHR 0xE2, CHR 0x80, CHR 0xA9],
      [CHR 0xE2, CHR 0x80, CHR 0xAF],
      [CHR 0xE2, CHR 0x81, CHR 0x9F],
      [CHR 0xE3, CHR 0x80, CHR 0x80]]"

definition spaceWidth :: "string list \<Rightarrow> string \<Rightarrow> nat" where
  "spaceWidth encodings s =
     (case find (\<lambda>e. take (length e) s = e) encodings of
        None \<Rightarrow> 0
      | Some e \<Rightarrow> length e)"

function stripSpaces :: "string list \<Rightarrow> string \<Rightarrow> string" where
  "stripSpaces encodings s =
     (let n = spaceWidth encodings s
      in if n = 0 then s else stripSpaces encodings (drop n s))"
  by pat_completeness auto
termination
proof (relation "measure (\<lambda>(encodings, s). length s)", goal_cases)
  case 1
  show ?case by simp
next
  case (2 encodings s n)
  have "s \<noteq> []"
  proof
    assume "s = []"
    then have "spaceWidth encodings s = 0"
      by (auto simp: spaceWidth_def find_Some_iff split: option.splits)
    with 2 show False by simp
  qed
  with 2 show ?case by simp
qed

declare stripSpaces.simps [simp del]

text \<open>Trimming at the back is trimming the reversed string of the reversed encodings.\<close>

definition TrimSpace :: "string \<Rightarrow> string" where
  "TrimSpace s = rev (stripSpaces (map rev whiteSpace) (rev (stripSpaces whiteSpace s)))"

text \<open>\<open>strings.SplitN(s, ":", 2)\<close>: split at the first colon, if there is one.\<close>

definition SplitN_colon_2 :: "string \<Rightarrow> string list" where
  "SplitN_colon_2 s =
     (if CHR '':'' \<in> set s
      then [takeWhile (\<lambda>c. c \<noteq> CHR '':'') s, tl (dropWhile (\<lambda>c. c \<noteq> CHR '':'') s)]
      else [s])"

section \<open>The three-panel dashboard (main.go)\<close>

text \<open>\<open>type Panel int\<close> with the constants \<open>PanelTUI\<close>, \<open>PanelDirs\<close>, \<open>PanelShortcuts\<close> = 0, 1, 2.\<close>

type_synonym Panel = int

definition PanelTUI :: Panel where "PanelTUI = 0"
definition PanelDirs :: Panel where "PanelDirs = 1"
definition PanelShortcuts :: Panel where "PanelShortcuts = 2"

record Item =
  Title :: string
  Description :: string
  Path :: string

record Model =
  focus :: Panel
  width :: int
  height :: int
  topItems :: "Item list"
  midItems :: "Item list"
  bottomItems :: "Item list"
  topCursor :: int
  midCursor :: int
  bottomCursor :: int
  rightTitle :: string
  rightBody :: string

definition initialModel :: Model where
  "initialModel = \<lparr>
     focus = PanelTUI, width = 0, height = 0,
     topItems = [
       \<lparr>Title = ''TUI Apps: Clock'', Description = ''A terminal clock widget'', Path = ''''\<rparr>,
       \<lparr>Title = ''TUI Apps: Calendar'', Description = ''Calendar in terminal'', Path = ''''\<rparr>,
       \<lparr>Title = ''TUI Apps: Notes'', Description = ''Notes app in terminal'', Path = ''''\<rparr>,
       \<lparr>Title = ''TUI Apps: Todo'', Description = ''Tiny todo app'', Path = ''''\<rparr>],
     midItems = [
       \<lparr>Title = ''Dev Projects'', Description = '''', Path = ''/home/you/projects''\<rparr>,
       \<lparr>Title = ''Work'', Description = '''', Path = ''/home/you/work''\<rparr>,
       \<lparr>Title = ''Docs'', Description = '''', Path = ''/home/you/docs''\<rparr>],
     bottomItems = [
       \<lparr>Title = ''Home'', Description = '''', Path = ''/home/you''\<rparr>,
       \<lparr>Title = ''Downloads'', Description = '''', Path = ''/home/you/Downloads''\<rparr>,
       \<lparr>Title = ''Configs'', Description = '''', Path = ''/home/you/.config''\<rparr>],
     topCursor = 0, midCursor = 0, bottomCursor = 0,
     rightTitle = '''', rightBody = ''''\<rparr>"

text \<open>\<open>m.focus = (m.focus + 1) % 3\<close>; Go's \<open>%\<close> truncates towards zero, as \<open>smod\<close> does.\<close>

definition cycleFocus :: "Model \<Rightarrow> Model" where
  "cycleFocus m = m\<lparr>focus := (focus m + 1) smod 3\<rparr>"

definition navigateUp :: "Model \<Rightarrow> Model" where
  "navigateUp m =
     (if focus m = PanelTUI then
        (if topCursor m > 0 then m\<lparr>topCursor := topCursor m - 1\<rparr> else m)
      else if focus m = PanelDirs then
        (if midCursor m > 0 then m\<lparr>midCursor := midCursor m - 1\<rparr> else m)
      else if focus m = PanelShortcuts then
        (if bottomCursor m > 0 then m\<lparr>bottomCursor := bottomCursor m - 1\<rparr> else m)
      else m)"

definition navigateDown :: "Model \<Rightarrow> Model" where
  "navigateDown m =
     (if focus m = PanelTUI then
        (if topCursor m < int (length (topItems m)) - 1
         then m\<lparr>topCursor := topCursor m + 1\<rparr> else m)
      else if focus m = PanelDirs then
        (if midCursor m < int (length (midItems m)) - 1
         then m\<lparr>midCursor := midCursor m + 1\<rparr> else m)
      else if focus m = PanelShortcuts then
        (if bottomCursor m < int (length (bottomItems m)) - 1
         then m\<lparr>bottomCursor := bottomCursor m + 1\<rparr> else m)
      else m)"

definition halfName :: "string \<Rightarrow> string" where
  "halfName title =
     (let parts = SplitN_colon_2 title
      in if length parts = 2 then TrimSpace (parts ! 1) else TrimSpace title)"

definition renderHTOPPreview :: "string \<Rightarrow> string" where
  "renderHTOPPreview name =
     ''Preview: '' @ name @ [newline] @
     ''CPU  12%  [||        ]'' @ [newline] @
     ''Mem  47%  [||||      ]'' @ [newline] @
     ''Tasks 42 (threads: 6)'' @ [newline] @
     ''Up 1d 2h''"

text \<open>
  \<open>activateCurrent\<close>: each branch guards \<open>cursor < len(items)\<close> and then reads
  \<open>items[cursor]\<close>, which panics when the cursor is negative.
\<close>

definition activateCurrent :: "Model \<Rightarrow> panic + Model" where
  "activateCurrent m =
     (if focus m = PanelTUI then
        (if topCursor m < int (length (topItems m)) then
           (case index (topItems m) (topCursor m) of
              Inl p \<Rightarrow> Inl p
            | Inr it \<Rightarrow>
                (let name = halfName (Title it)
                 in Inr (m\<lparr>rightTitle := ''HTOP Preview: '' @ name,
                          rightBody := renderHTOPPreview name\<rparr>)))
         else Inr m)
      else if focus m = PanelDirs then
        (if midCursor m < int (length (midItems m)) then
           (case index (midItems m) (midCursor m) of
              Inl p \<Rightarrow> Inl p
            | Inr it \<Rightarrow>
                (let name = halfName (Title it)
                 in Inr (m\<lparr>rightTitle := ''HTOP Preview: '' @ name,
                          rightBody := renderHTOPPreview name\<rparr>)))
         else Inr m)
      else if focus m = PanelShortcuts then
        (if bottomCursor m < int (length (bottomItems m)) then
           (case index (bottomItems m) (bottomCursor m) of
              Inl p \<Rightarrow> Inl p
            | Inr it \<Rightarrow>
                (let name = halfName (Title it)
                 in Inr (m\<lparr>rightTitle := ''HTOP Preview: '' @ name,
                          rightBody := renderHTOPPreview name\<rparr>)))
         else Inr m)
      else Inr m)"

text \<open>
  The logical actions of the state machine, each carried out by the function
  of main.go that \<open>Update\<close> calls for it; a panic ends the run.
\<close>

datatype action = CycleFocus | MoveUp | MoveDown | Activate

fun perform :: "action \<Rightarrow> Model \<Rightarrow> panic + Model" where
  "perform CycleFocus m = Inr (cycleFocus m)"
| "perform MoveUp m = Inr (navigateUp m)"
| "perform MoveDown m = Inr (navigateDown m)"
| "perform Activate m = activateCurrent m"

fun perform_all :: "action list \<Rightarrow> Model \<Rightarrow> panic + Model" where
  "perform_all [] m = Inr m"
| "perform_all (a # as) m =
     (case perform a m of Inl p \<Rightarrow> Inl p | Inr m' \<Rightarrow> perform_all as m')"

text \<open>The entry list and the cursor of a panel, and the cursor invariant of the data model.\<close>

definition items_of :: "Panel \<Rightarrow> Model \<Rightarrow> Item list" where
  "items_of p m =
     (if p = PanelTUI then topItems m else if p = PanelDirs then midItems m else bottomItems m)"

definition cursor_of :: "Panel \<Rightarrow> Model \<Rightarrow> int" where
  "cursor_of p m =
     (if p = PanelTUI then topCursor m else if p = PanelDirs then midCursor m else bottomCursor m)"

definition is_panel :: "Panel \<Rightarrow> bool" where
  "is_panel p = (p = PanelTUI \<or> p = PanelDirs \<or> p = PanelShortcuts)"

definition cursor_ok :: "Item list \<Rightarrow> int \<Rightarrow> bool" where
  "cursor_ok items c = (if items = [] then c = 0 else 0 \<le> c \<and> c < int (length items))"

definition cursors_ok :: "Model \<Rightarrow> bool" where
  "cursors_ok m =
     (cursor_ok (topItems m) (topCursor m) \<and> cursor_ok (midItems m) (midCursor m)
      \<and> cursor_ok (bottomItems m) (bottomCursor m))"

text \<open>
  The repository's own test of the first activation (\<open>TestInitialActivationTop\<close>): it
  calls \<open>t.Fatalf\<close> when the title or the body of the right pane differs from the
  entry's title and description, so it passes exactly when both are equal.
\<close>

definition TestInitialActivationTop :: bool where
  "TestInitialActivationTop =
     (case activateCurrent initialModel of
        Inl p \<Rightarrow> False
      | Inr m \<Rightarrow>
          rightTitle m = ''TUI Apps: Clock'' \<and> rightBody m = ''A terminal clock widget'')"

section \<open>The two-panel list variant\<close>

text \<open>
  A second \<open>main\<close> package of the repository: a navigation panel and a main panel
  with a check list, and a status bar. Its \<open>Panel\<close> constants are
  \<open>NavigationPanel\<close>, \<open>MainPanel\<close>, \<open>StatusPanel\<close> = 0, 1, 2. Names that clash with
  main.go carry the suffix \<open>_list\<close>.
\<close>

definition NavigationPanel :: Panel where "NavigationPanel = 0"
definition MainPanel :: Panel where "MainPanel = 1"
definition StatusPanel :: Panel where "StatusPanel = 2"

record model =
  panel :: Panel
  navItems :: "string list"
  navCursor :: int
  choices :: "string list"
  mainCursor :: int
  selected :: "int set"
  width_list :: int
  height_list :: int


datatype msg = KeyMsg string | WindowSizeMsg int int

datatype cmd = Quit

definition Update_list :: "model \<Rightarrow> msg \<Rightarrow> model \<times> cmd option" where
  "Update_list m message =
     (case message of
        KeyMsg k \<Rightarrow>
          if k = ''ctrl+c'' \<or> k = ''q'' then (m, Some Quit)
          else if k = ''tab'' then
            (if panel m = NavigationPanel then
               (let m1 = m\<lparr>panel := MainPanel\<rparr>
                in if mainCursor m1 \<ge> int (length (choices m1)) \<and> length (choices m1) > 0
                   then (m1\<lparr>mainCursor := int (length (choices m1)) - 1\<rparr>, None)
                   else (m1, None))
             else if panel m = MainPanel then
               (let m1 = m\<lparr>panel := NavigationPanel\<rparr>
                in if navCursor m1 \<ge> int (length (navItems m1)) \<and> length (navItems m1) > 0
                   then (m1\<lparr>navCursor := int (length (navItems m1)) - 1\<rparr>, None)
                   else (m1, None))
             else (m, None))
          else if k = ''up'' \<or> k = ''k'' then
            (if panel m = NavigationPanel then
               (if navCursor m > 0 then (m\<lparr>navCursor := navCursor m - 1\<rparr>, None) else (m, None))
             else if panel m = MainPanel then
               (if mainCursor m > 0 then (m\<lparr>mainCursor := mainCursor m - 1\<rparr>, None) else (m, None))
             else (m, None))
          else if k = ''down'' \<or> k = ''j'' then
            (if panel m = NavigationPanel then
               (if navCursor m < int (length (navItems m)) - 1
                then (m\<lparr>navCursor := navCursor m + 1\<rparr>, None) else (m, None))
             else if panel m = MainPanel then
               (if mainCursor m < int (length (choices m)) - 1
                then (m\<lparr>mainCursor := mainCursor m + 1\<rparr>, None) else (m, None))
             else (m, None))
          else if k = ''enter'' \<or> k = '' '' then
            (if panel m = MainPanel then
               (if mainCursor m \<in> selected m
                then (m\<lparr>selected := selected m - {mainCursor m}\<rparr>, None)
                else (m\<lparr>selected := insert (mainCursor m) (selected m)\<rparr>, None))
             else (m, None))
          else (m, None)
      | WindowSizeMsg w h \<Rightarrow> (m\<lparr>width_list := w, height_list := h\<rparr>, None))"

text \<open>Pressing one key \<open>n\<close> times (the runtime stops delivering keys after \<open>Quit\<close>).\<close>

fun press :: "string \<Rightarrow> nat \<Rightarrow> model \<Rightarrow> model" where
  "press k 0 m = m"
| "press k (Suc n) m =
     (case Update_list m (KeyMsg k) of
        (m', Some Quit) \<Rightarrow> m'
      | (m', None) \<Rightarrow> press k n m')"

section \<open>The shell-in-a-directory helper\<close>

text \<open>
  The operating system as \<open>launchInDir\<close> sees it: the environment variables, and for
  each path what \<open>os.Stat\<close> reports (\<open>None\<close>: an error; \<open>Some d\<close>: the path exists and
  \<open>IsDir()\<close> is \<open>d\<close>). The effects of a call are listed in order.
\<close>

record os =
  environ :: "string \<rightharpoonup> string"
  stat :: "string \<rightharpoonup> bool"

datatype effect = Exec string string | Stdout string

datatype error =
    ErrQuit | ErrRestart | ErrUnknownView
  | DirectoryDoesNotExist string
  | IOError | JSONError | ExecError

definition Getenv :: "os \<Rightarrow> string \<Rightarrow> string" where
  "Getenv w name = (case environ w name of None \<Rightarrow> [] | Some v \<Rightarrow> v)"

text \<open>
  \<open>run_result\<close> is what \<open>cmd.Run()\<close> returns once the shell has ended;
  \<open>Exec ''bash'' dir\<close> records the shell being run with working directory \<open>dir\<close>.
\<close>

definition launchInDir :: "os \<Rightarrow> error option \<Rightarrow> string \<Rightarrow> error option \<times> effect list" where
  "launchInDir w run_result dir =
     (let v = Getenv w ''GO_DASH_LAUNCH_IN_DIR''
      in if TrimSpace v \<noteq> [] then
           (case stat w dir of
              Some True \<Rightarrow> (run_result, [Exec ''bash'' dir])
            | _ \<Rightarrow> (Some (DirectoryDoesNotExist dir), []))
         else (None, [Stdout (''Would launch shell in: '' @ dir @ [newline])]))"

section \<open>The application launcher\<close>

text \<open>
  The launcher keeps the package-level variables \<open>applications\<close> and \<open>pendingApp\<close>.
  Around them the model keeps what the properties below observe of the environment:
  \<^item> \<open>cursorY\<close>: the cursor line of the \<open>list\<close> view (lines 0 and 1 are the heading and
    a blank line). \<open>MoveCursor(0, d, false)\<close> is taken to move the cursor by \<open>d\<close> lines,
    which is what gocui does while the list fits into the view;
  \<^item> \<open>views\<close>: the views of the current \<open>Gui\<close> with the text of their buffers (only the
    text of the two input fields is read by the program, painting is left out), and
    \<open>currentView\<close>;
  \<^item> \<open>files\<close>: the contents of the files by path, and \<open>unwritable\<close>: the paths where
    \<open>ioutil.WriteFile\<close> fails (it then leaves the file as it was);
  \<^item> \<open>mode\<close> and \<open>trace\<close>: where the control of \<open>main\<close> is, and the observable events so
    far, in order.
\<close>

record Application =
  Name :: string
  Command :: string

record Config =
  Applications :: "Application list"

datatype event = GuiOpen | GuiClose | CmdStart string | Logged string

datatype mode = Starting | Interactive | Launching Application | Finished | Panicked

record dash =
  applications :: "Application list"
  pendingApp :: "Application option"
  cursorY :: int
  views :: "string \<rightharpoonup> string"
  currentView :: "string option"
  files :: "string \<rightharpoonup> string"
  unwritable :: "string set"
  mode :: mode
  trace :: "event list"

text \<open>
  How a child process ended, as \<open>cmd.Start()\<close> and \<open>cmd.Wait()\<close> report it:
  \<open>StartFailed\<close>: \<open>Start\<close> returned an error; \<open>WaitOk\<close>: \<open>Wait\<close> returned \<open>nil\<close>;
  \<open>ExitError st\<close>: \<open>Wait\<close> returned an \<open>*exec.ExitError\<close> with wait status \<open>st\<close>;
  \<open>WaitFailed\<close>: \<open>Wait\<close> returned another error. The wait status is the Unix one
  (\<open>syscall.WaitStatus\<close>), whose \<open>Signal()\<close> is \<open>-1\<close> unless the process was ended by a
  signal.
\<close>

datatype wait_status = Exited nat | Signaled nat

datatype child_result = StartFailed | WaitOk | ExitError wait_status | WaitFailed

definition SIGINT :: nat where "SIGINT = 2"
definition SIGTERM :: nat where "SIGTERM = 15"

fun Signal :: "wait_status \<Rightarrow> int" where
  "Signal (Signaled sig) = int sig"
| "Signal (Exited code) = - 1"

subsection \<open>Key handlers of the list view\<close>

definition quit :: "dash \<Rightarrow> error option \<times> dash" where
  "quit s = (Some ErrQuit, s)"

definition cursorDown :: "dash \<Rightarrow> error option \<times> dash" where
  "cursorDown s =
     (if cursorY s < int (length (applications s)) + 1
      then (None, s\<lparr>cursorY := cursorY s + 1\<rparr>) else (None, s))"

definition cursorUp :: "dash \<Rightarrow> error option \<times> dash" where
  "cursorUp s =
     (if cursorY s > 2 then (None, s\<lparr>cursorY := cursorY s - 1\<rparr>) else (None, s))"

definition getAppFromCursor :: "dash \<Rightarrow> Application option" where
  "getAppFromCursor s =
     (let index = cursorY s - 2
      in if index \<ge> 0 \<and> index < int (length (applications s))
         then Some (applications s ! nat index) else None)"

text \<open>\<open>runApp\<close> of the launcher: remember the application and leave the main loop.\<close>

definition runApp :: "dash \<Rightarrow> error option \<times> dash" where
  "runApp s =
     (case getAppFromCursor s of
        None \<Rightarrow> (None, s)
      | Some app \<Rightarrow> (Some ErrRestart, s\<lparr>pendingApp := Some app\<rparr>))"

definition refreshDashboard :: "dash \<Rightarrow> error option \<times> dash" where
  "refreshDashboard s = (None, s)"

text \<open>
  \<open>runApplication\<close>, given how the child ends: the command is started through
  \<open>sh -c\<close>, and the result of waiting for it is classified.
\<close>

definition runApplication :: "Application \<Rightarrow> child_result \<Rightarrow> event list" where
  "runApplication app r =
     CmdStart (Command app) #
     (case r of
        StartFailed \<Rightarrow> [Logged ''Error starting command:'']
      | WaitOk \<Rightarrow> []
      | ExitError status \<Rightarrow>
          if Signal status = int SIGINT \<or> Signal status = int SIGTERM then []
          else [Logged ''Error running command:'']
      | WaitFailed \<Rightarrow> [Logged ''Error running command:''])"

subsection \<open>The main loop of the launcher\<close>

text \<open>
  The keys bound on the list view. The keys of the add-entry dialog are not
  part of this loop model: their handlers (below) neither set \<open>pendingApp\<close> nor
  return \<open>ErrRestart\<close>.
\<close>

datatype key = KeyCtrlC | KeyArrowDown | KeyArrowUp | KeyEnter | KeyR

definition dispatch :: "key \<Rightarrow> dash \<Rightarrow> error option \<times> dash" where
  "dispatch k s =
     (case k of
        KeyCtrlC \<Rightarrow> quit s
      | KeyArrowDown \<Rightarrow> cursorDown s
      | KeyArrowUp \<Rightarrow> cursorUp s
      | KeyEnter \<Rightarrow> runApp s
      | KeyR \<Rightarrow> refreshDashboard s)"

text \<open>
  \<open>layout\<close> on a fresh \<open>Gui\<close>: the views \<open>list\<close>, \<open>dashboard\<close> and \<open>footer\<close> are created,
  \<open>list\<close> becomes the current view and its cursor is put on line 2. The terminal is
  taken to be large enough for \<open>SetView\<close> and \<open>SetCursor\<close> to succeed.
\<close>

definition layout :: "dash \<Rightarrow> dash" where
  "layout s =
     (let s1 = (if ''list'' \<in> dom (views s) then s
                else s\<lparr>views := (views s)(''list'' \<mapsto> []),
                       currentView := Some ''list'', cursorY := 2\<rparr>);
          s2 = (if ''dashboard'' \<in> dom (views s1) then s1
                else s1\<lparr>views := (views s1)(''dashboard'' \<mapsto> [])\<rparr>)
      in if ''footer'' \<in> dom (views s2) then s2
         else s2\<lparr>views := (views s2)(''footer'' \<mapsto> [])\<rparr>)"

text \<open>
  What \<open>main\<close> does once \<open>run()\<close> has returned the error \<open>err\<close> (the deferred
  \<open>g.Close()\<close> has run by then).
\<close>

definition after_run :: "error \<Rightarrow> dash \<Rightarrow> dash" where
  "after_run err s =
     (if err = ErrRestart then
        (case pendingApp s of
           Some app \<Rightarrow> s\<lparr>pendingApp := None, mode := Launching app\<rparr>
         | None \<Rightarrow> s\<lparr>mode := Starting\<rparr>)
      else if err \<noteq> ErrQuit then s\<lparr>mode := Panicked\<rparr>
      else s\<lparr>mode := Finished\<rparr>)"

text \<open>
  What reaches the program from outside: whether \<open>gocui.NewGui\<close> succeeds when
  \<open>run()\<close> begins, a key pressed while the main loop runs, and the end of the child
  that \<open>runApplication\<close> waits for. An input that the program is not waiting for in
  its present mode does not reach it.
\<close>

datatype input = NewGui bool | Key key | ChildDone child_result

definition step :: "dash \<Rightarrow> input \<Rightarrow> dash" where
  "step s i =
     (case mode s of
        Starting \<Rightarrow>
          (case i of
             NewGui ok \<Rightarrow>
               if ok
               then layout (s\<lparr>views := Map.empty, currentView := None, mode := Interactive,
                              trace := trace s @ [GuiOpen]\<rparr>)
               else s\<lparr>mode := Panicked\<rparr>
           | _ \<Rightarrow> s)
      | Interactive \<Rightarrow>
          (case i of
             Key k \<Rightarrow>
               (case dispatch k s of
                  (None, s') \<Rightarrow> s'
                | (Some err, s') \<Rightarrow> after_run err (s'\<lparr>trace := trace s' @ [GuiClose]\<rparr>))
           | _ \<Rightarrow> s)
      | Launching app \<Rightarrow>
          (case i of
             ChildDone r \<Rightarrow> s\<lparr>trace := trace s @ runApplication app r, mode := Starting\<rparr>
           | _ \<Rightarrow> s)
      | Finished \<Rightarrow> s
      | Panicked \<Rightarrow> s)"

definition exec :: "dash \<Rightarrow> input list \<Rightarrow> dash" where
  "exec s inputs = foldl step s inputs"

text \<open>\<open>main\<close> after the configuration has been loaded into \<open>applications\<close>.\<close>

definition main_start :: "Application list \<Rightarrow> (string \<rightharpoonup> string) \<Rightarrow> dash" where
  "main_start apps fs = \<lparr>
     applications = apps, pendingApp = None, cursorY = 0,
     views = Map.empty, currentView = None,
     files = fs, unwritable = {},
     mode = Starting, trace = []\<rparr>"

subsection \<open>The earlier launcher, which runs the command inside the key handler\<close>

text \<open>
  In the other launcher of the repository \<open>runApp\<close> itself runs the command with
  \<open>cmd.Run()\<close>, logs any error and then returns \<open>ErrRestart\<close>. Its other handlers are
  the ones above (without the repainting), and its \<open>main\<close> restarts \<open>run()\<close> on
  \<open>ErrRestart\<close>. Names that clash carry the suffix \<open>_inline\<close>. While the handler waits
  for the child the mode is \<open>Launching\<close>.
\<close>

definition runApp_inline :: "child_result \<Rightarrow> dash \<Rightarrow> error option \<times> dash" where
  "runApp_inline r s =
     (case getAppFromCursor s of
        None \<Rightarrow> (None, s)
      | Some app \<Rightarrow>
          (let s1 = s\<lparr>trace := trace s @ [CmdStart (Command app)]\<rparr>;
               s2 = (if r \<noteq> WaitOk
                     then s1\<lparr>trace := trace s1 @ [Logged ''Error running command:'']\<rparr>
                     else s1)
           in (Some ErrRestart, s2)))"

definition dispatch_inline :: "key \<Rightarrow> dash \<Rightarrow> error option \<times> dash" where
  "dispatch_inline k s =
     (case k of
        KeyCtrlC \<Rightarrow> quit s
      | KeyArrowDown \<Rightarrow> cursorDown s
      | KeyArrowUp \<Rightarrow> cursorUp s
      | _ \<Rightarrow> (None, s))"

definition layout_inline :: "dash \<Rightarrow> dash" where
  "layout_inline s =
     (if ''list'' \<in> dom (views s) then s
      else s\<lparr>views := (views s)(''list'' \<mapsto> []), currentView := Some ''list'', cursorY := 2\<rparr>)"

definition after_run_inline :: "error \<Rightarrow> dash \<Rightarrow> dash" where
  "after_run_inline err s =
     (if err = ErrRestart then s\<lparr>mode := Starting\<rparr>
      else if err \<noteq> ErrQuit then s\<lparr>mode := Panicked\<rparr>
      else s\<lparr>mode := Finished\<rparr>)"

text \<open>
  On Enter with an application under the cursor the handler \<open>runApp\<close> is entered and
  stays in \<open>cmd.Run()\<close> until the child has ended; the main loop, and with it the
  \<open>Gui\<close>, stays open meanwhile.
\<close>

definition step_inline :: "dash \<Rightarrow> input \<Rightarrow> dash" where
  "step_inline s i =
     (case mode s of
        Starting \<Rightarrow>
          (case i of
             NewGui ok \<Rightarrow>
               if ok
               then layout_inline (s\<lparr>views := Map.empty, currentView := None,
                                     mode := Interactive, trace := trace s @ [GuiOpen]\<rparr>)
               else s\<lparr>mode := Panicked\<rparr>
           | _ \<Rightarrow> s)
      | Interactive \<Rightarrow>
          (case i of
             Key k \<Rightarrow>
               if k = KeyEnter then
                 (case getAppFromCursor s of
                    None \<Rightarrow> s
                  | Some app \<Rightarrow> s\<lparr>mode := Launching app\<rparr>)
               else
                 (case dispatch_inline k s of
                    (None, s') \<Rightarrow> s'
                  | (Some err, s') \<Rightarrow>
                      after_run_inline err (s'\<lparr>trace := trace s' @ [GuiClose]\<rparr>))
           | _ \<Rightarrow> s)
      | Launching app \<Rightarrow>
          (case i of
             ChildDone r \<Rightarrow>
               (case runApp_inline r s of
                  (None, s') \<Rightarrow> s'\<lparr>mode := Interactive\<rparr>
                | (Some err, s') \<Rightarrow>
                    after_run_inline err (s'\<lparr>trace := trace s' @ [GuiClose]\<rparr>))
           | _ \<Rightarrow> s)
      | Finished \<Rightarrow> s
      | Panicked \<Rightarrow> s)"

definition exec_inline :: "dash \<Rightarrow> input list \<Rightarrow> dash" where
  "exec_inline s inputs = foldl step_inline s inputs"

subsection \<open>Who owns the terminal when a command is started\<close>

text \<open>
  \<open>spawn_ok own tr\<close>: along the trace \<open>tr\<close>, begun with the terminal owned by the UI
  iff \<open>own\<close>, no command is started while the UI owns the terminal.
\<close>

fun owner_after :: "bool \<Rightarrow> event list \<Rightarrow> bool" where
  "owner_after own [] = own"
| "owner_after own (GuiOpen # tr) = owner_after True tr"
| "owner_after own (GuiClose # tr) = owner_after False tr"
| "owner_after own (e # tr) = owner_after own tr"

fun spawn_ok :: "bool \<Rightarrow> event list \<Rightarrow> bool" where
  "spawn_ok own [] = True"
| "spawn_ok own (GuiOpen # tr) = spawn_ok True tr"
| "spawn_ok own (GuiClose # tr) = spawn_ok False tr"
| "spawn_ok own (CmdStart c # tr) = (\<not> own \<and> spawn_ok own tr)"
| "spawn_ok own (Logged l # tr) = spawn_ok own tr"

definition logged :: "event list \<Rightarrow> string list" where
  "logged tr = concat (map (\<lambda>e. case e of Logged l \<Rightarrow> [l] | _ \<Rightarrow> []) tr)"

subsection \<open>Adding an application\<close>

text \<open>
  \<open>trimViewText\<close> on the text of a view's buffer: the loop drops trailing line feeds
  and carriage returns.
\<close>

function trimViewText :: "string \<Rightarrow> string" where
  "trimViewText text =
     (if length text > 0 then
        (let l = last text
         in if l = newline \<or> l = carriage_return then trimViewText (butlast text) else text)
      else text)"
  by pat_completeness auto
termination
  by (relation "measure length") auto

declare trimViewText.simps [simp del]

text \<open>
  \<open>encoding/json\<close> is not code of this repository: \<open>json.MarshalIndent\<close> and
  \<open>json.Unmarshal\<close> on a \<open>Config\<close> are parameters \<open>marshal\<close> and \<open>unmarshal\<close> of the
  functions that call them.
\<close>

definition WriteFile :: "string \<Rightarrow> string \<Rightarrow> dash \<Rightarrow> error option \<times> dash" where
  "WriteFile path file s =
     (if path \<in> unwritable s then (Some IOError, s)
      else (None, s\<lparr>files := (files s)(path \<mapsto> file)\<rparr>))"

definition writeConfig ::
  "(Config \<Rightarrow> error + string) \<Rightarrow> string \<Rightarrow> Application list \<Rightarrow> dash \<Rightarrow> error option \<times> dash" where
  "writeConfig marshal path apps s =
     (let conf = \<lparr>Applications = apps\<rparr>
      in case marshal conf of
           Inl err \<Rightarrow> (Some err, s)
         | Inr file \<Rightarrow> WriteFile path file s)"

definition loadConfig :: "(string \<Rightarrow> error + Config) \<Rightarrow> string \<Rightarrow> dash \<Rightarrow> error + Config" where
  "loadConfig unmarshal path s =
     (case files s path of
        None \<Rightarrow> Inl IOError
      | Some file \<Rightarrow> unmarshal file)"

fun deleteViews :: "string list \<Rightarrow> dash \<Rightarrow> dash" where
  "deleteViews [] s = s"
| "deleteViews (name # names) s =
     deleteViews names
       (if name \<in> dom (views s) then s\<lparr>views := (views s)(name := None)\<rparr> else s)"

definition SetCurrentView :: "string \<Rightarrow> dash \<Rightarrow> error option \<times> dash" where
  "SetCurrentView name s =
     (if name \<in> dom (views s) then (None, s\<lparr>currentView := Some name\<rparr>)
      else (Some ErrUnknownView, s))"

definition cancelAddModal :: "dash \<Rightarrow> error option \<times> dash" where
  "cancelAddModal s =
     SetCurrentView ''list'' (deleteViews [''add_modal'', ''add_name'', ''add_cmd''] s)"

definition saveNewApp :: "(Config \<Rightarrow> error + string) \<Rightarrow> dash \<Rightarrow> error option \<times> dash" where
  "saveNewApp marshal s =
     (case views s ''add_name'' of
        None \<Rightarrow> (Some ErrUnknownView, s)
      | Some nameV \<Rightarrow>
          (case views s ''add_cmd'' of
             None \<Rightarrow> (Some ErrUnknownView, s)
           | Some cmdV \<Rightarrow>
               (let name = trimViewText nameV;
                    cmd = trimViewText cmdV
                in if name = [] \<or> cmd = [] then (None, s)
                   else
                     (let s1 = s\<lparr>applications :=
                                  applications s @ [\<lparr>Name = name, Command = cmd\<rparr>]\<rparr>;
                          (werr, s2) = writeConfig marshal ''config.json'' (applications s1) s1;
                          s3 = (case werr of
                                  Some err \<Rightarrow> s2\<lparr>trace := trace s2 @ [Logged ''Error writing config:'']\<rparr>
                                | None \<Rightarrow> s2);
                          (cerr, s4) = cancelAddModal s3
                      in (None, s4)))))"

section \<open>Properties of the three-panel dashboard\<close>

lemmas Panel_defs = PanelTUI_def PanelDirs_def PanelShortcuts_def

lemmas list_Panel_defs = NavigationPanel_def MainPanel_def StatusPanel_def

subsection \<open>Cycling the focus\<close>

lemma cycleFocus_cursors:
  "topCursor (cycleFocus m) = topCursor m \<and> midCursor (cycleFocus m) = midCursor m
   \<and> bottomCursor (cycleFocus m) = bottomCursor m"
  by (simp add: cycleFocus_def)

lemma cycleFocus_is_panel: "is_panel (focus m) \<Longrightarrow> is_panel (focus (cycleFocus m))"
  by (auto simp: is_panel_def cycleFocus_def Panel_defs signed_modulo_int_def)

lemma cycleFocus_period: "is_panel (focus m) \<Longrightarrow> (cycleFocus ^^ 3) m = m"
  by (auto simp: is_panel_def cycleFocus_def Panel_defs signed_modulo_int_def numeral_3_eq_3)

text \<open>
  In every state of the three-panel dashboard whose focus is one of the three
  panels, three applications of \<open>cycleFocus\<close> bring the focus back to the panel it
  was on (they give back the very same state), the focus stays on one of the three
  panels, and an application of \<open>cycleFocus\<close> leaves the cursor of each panel as it
  was.
\<close>

lemma cycleFocus_three_times:
  assumes "is_panel (focus m)"
  shows "focus ((cycleFocus ^^ 3) m) = focus m
       \<and> (cycleFocus ^^ 3) m = m
       \<and> is_panel (focus (cycleFocus m))
       \<and> topCursor (cycleFocus m) = topCursor m
       \<and> midCursor (cycleFocus m) = midCursor m
       \<and> bottomCursor (cycleFocus m) = bottomCursor m"
  using assms cycleFocus_period [OF assms] cycleFocus_is_panel [OF assms] cycleFocus_cursors [of m]
  by simp

lemma cycleFocus_three_times_example:
  "is_panel (focus initialModel)
   \<and> focus ((cycleFocus ^^ 3) initialModel) = focus initialModel
   \<and> (cycleFocus ^^ 3) initialModel = initialModel
   \<and> is_panel (focus (cycleFocus initialModel))
   \<and> topCursor (cycleFocus initialModel) = topCursor initialModel
   \<and> midCursor (cycleFocus initialModel) = midCursor initialModel
   \<and> bottomCursor (cycleFocus initialModel) = bottomCursor initialModel"
proof -
  have h: "is_panel (focus initialModel)"
    by (simp add: is_panel_def initialModel_def)
  from h cycleFocus_three_times [OF h] show ?thesis by blast
qed

subsection \<open>Moving the cursor down\<close>

lemma navigateDown_focus: "focus (navigateDown m) = focus m"
  by (simp add: navigateDown_def)

lemma navigateDown_items: "items_of p (navigateDown m) = items_of p m"
  by (simp add: navigateDown_def items_of_def)

lemma navigateDown_cursor:
  "is_panel (focus m) \<Longrightarrow>
   cursor_of (focus m) (navigateDown m) =
     (if cursor_of (focus m) m < int (length (items_of (focus m) m)) - 1
      then cursor_of (focus m) m + 1 else cursor_of (focus m) m)"
  by (auto simp: navigateDown_def items_of_def cursor_of_def is_panel_def Panel_defs)

lemma navigateDown_funpow_focus: "focus ((navigateDown ^^ n) m) = focus m"
  by (induction n) (simp_all add: navigateDown_focus)

lemma navigateDown_funpow_items: "items_of p ((navigateDown ^^ n) m) = items_of p m"
  by (induction n) (simp_all add: navigateDown_items)

text \<open>After \<open>n\<close> moves the cursor has advanced by \<open>n\<close>, but not beyond the last index.\<close>

lemma navigateDown_funpow_cursor:
  assumes "is_panel (focus m)"
    and "cursor_of (focus m) m \<le> int (length (items_of (focus m) m)) - 1"
  shows "cursor_of (focus m) ((navigateDown ^^ n) m) =
           min (cursor_of (focus m) m + int n) (int (length (items_of (focus m) m)) - 1)"
proof (induction n)
  case 0
  show ?case using assms by simp
next
  case (Suc n)
  let ?m' = "(navigateDown ^^ n) m"
  have f: "focus ?m' = focus m" by (rule navigateDown_funpow_focus)
  have "cursor_of (focus m) (navigateDown ?m') =
          (if cursor_of (focus m) ?m' < int (length (items_of (focus m) ?m')) - 1
           then cursor_of (focus m) ?m' + 1 else cursor_of (focus m) ?m')"
    using navigateDown_cursor [of ?m'] assms(1) f by simp
  then show ?case using Suc by (simp add: navigateDown_funpow_items)
qed

text \<open>
  Claim C5. For the focused panel of the three-panel dashboard, when its entry list
  is not empty and its cursor is on one of the entries, \<open>len(entries)\<close> moves down
  leave the cursor on the last index \<open>len(entries) - 1\<close>; and after any number of
  moves the cursor is at most the last index and at least where it began, so it
  saturates and never wraps around.
\<close>

theorem navigateDown_saturates:
  assumes "is_panel (focus m)"
    and "items_of (focus m) m \<noteq> []"
    and "0 \<le> cursor_of (focus m) m"
    and "cursor_of (focus m) m < int (length (items_of (focus m) m))"
  shows "cursor_of (focus m) ((navigateDown ^^ length (items_of (focus m) m)) m)
           = int (length (items_of (focus m) m)) - 1
       \<and> (\<forall>n. cursor_of (focus m) ((navigateDown ^^ n) m) \<le> int (length (items_of (focus m) m)) - 1
              \<and> cursor_of (focus m) m \<le> cursor_of (focus m) ((navigateDown ^^ n) m))"
proof -
  have le: "cursor_of (focus m) m \<le> int (length (items_of (focus m) m)) - 1"
    using assms(4) by simp
  have "cursor_of (focus m) ((navigateDown ^^ n) m) =
          min (cursor_of (focus m) m + int n) (int (length (items_of (focus m) m)) - 1)" for n
    by (rule navigateDown_funpow_cursor [OF assms(1) le])
  then show ?thesis using assms(3) le by (auto simp: min_def)
qed

theorem navigateDown_saturates_witness:
  "is_panel (focus initialModel)
   \<and> items_of (focus initialModel) initialModel \<noteq> []
   \<and> 0 \<le> cursor_of (focus initialModel) initialModel
   \<and> cursor_of (focus initialModel) initialModel
       < int (length (items_of (focus initialModel) initialModel))
   \<and> length (items_of (focus initialModel) initialModel) = 4
   \<and> cursor_of (focus initialModel)
       ((navigateDown ^^ length (items_of (focus initialModel) initialModel)) initialModel) = 3"
proof -
  have h1: "is_panel (focus initialModel)"
    by (simp add: is_panel_def initialModel_def)
  have h2: "items_of (focus initialModel) initialModel \<noteq> []"
    by (simp add: items_of_def initialModel_def)
  have h3: "0 \<le> cursor_of (focus initialModel) initialModel"
    by (simp add: cursor_of_def initialModel_def)
  have h4: "cursor_of (focus initialModel) initialModel
              < int (length (items_of (focus initialModel) initialModel))"
    by (simp add: cursor_of_def items_of_def initialModel_def)
  have l: "length (items_of (focus initialModel) initialModel) = 4"
    by (simp add: items_of_def initialModel_def)
  from navigateDown_saturates [OF h1 h2 h3 h4]
  have "cursor_of (focus initialModel)
          ((navigateDown ^^ length (items_of (focus initialModel) initialModel)) initialModel)
        = int (length (items_of (focus initialModel) initialModel)) - 1"
    by blast
  with h1 h2 h3 h4 l show ?thesis by simp
qed

subsection \<open>The cursor invariant\<close>

lemma navigateDown_cursors_ok: "cursors_ok m \<Longrightarrow> cursors_ok (navigateDown m)"
  by (auto simp: cursors_ok_def cursor_ok_def navigateDown_def split: if_splits)

lemma navigateUp_cursors_ok: "cursors_ok m \<Longrightarrow> cursors_ok (navigateUp m)"
  by (auto simp: cursors_ok_def cursor_ok_def navigateUp_def split: if_splits)

lemma cycleFocus_cursors_ok: "cursors_ok m \<Longrightarrow> cursors_ok (cycleFocus m)"
  by (simp add: cursors_ok_def cycleFocus_def)

lemma activateCurrent_cursors_ok:
  "cursors_ok m \<Longrightarrow> \<exists>m'. activateCurrent m = Inr m' \<and> cursors_ok m'"
  by (auto simp: cursors_ok_def cursor_ok_def activateCurrent_def index_def Let_def
           split: if_splits)

lemma perform_cursors_ok: "cursors_ok m \<Longrightarrow> \<exists>m'. perform a m = Inr m' \<and> cursors_ok m'"
  by (cases a)
     (simp_all add: navigateDown_cursors_ok navigateUp_cursors_ok cycleFocus_cursors_ok
        activateCurrent_cursors_ok)

lemma perform_all_cursors_ok:
  "cursors_ok m \<Longrightarrow> \<exists>m'. perform_all as m = Inr m' \<and> cursors_ok m'"
proof (induction as arbitrary: m)
  case Nil
  then show ?case by simp
next
  case (Cons a as)
  from perform_cursors_ok [OF Cons.prems, of a]
  obtain m1 where m1: "perform a m = Inr m1" "cursors_ok m1" by blast
  from Cons.IH [OF m1(2)] m1(1) show ?case by simp
qed

lemma initialModel_cursors_ok: "cursors_ok initialModel"
  by (simp add: cursors_ok_def cursor_ok_def initialModel_def)

text \<open>
  Claim C6. After every sequence of the actions \<open>cycleFocus\<close>, \<open>moveCursor\<close> up or down
  and \<open>activate\<close>, carried out from the initial state, no action has panicked and the
  cursor of every panel satisfies \<open>0 \<le> cursor < len(entries)\<close> when the panel has
  entries and is \<open>0\<close> when it has none. (\<open>perform_all_cursors_ok\<close> is the same for any
  starting state in which the cursors are in range.)
\<close>

theorem cursors_stay_in_range:
  "\<exists>m. perform_all as initialModel = Inr m \<and> cursors_ok m"
  by (rule perform_all_cursors_ok [OF initialModel_cursors_ok])

theorem cursors_stay_in_range_witness:
  "\<exists>m. perform_all [MoveDown, MoveDown, CycleFocus, MoveUp, Activate, MoveDown] initialModel = Inr m
       \<and> cursors_ok m \<and> topCursor m = 2 \<and> midCursor m = 1 \<and> bottomCursor m = 0"
proof -
  from cursors_stay_in_range [of "[MoveDown, MoveDown, CycleFocus, MoveUp, Activate, MoveDown]"]
  obtain m where m: "perform_all [MoveDown, MoveDown, CycleFocus, MoveUp, Activate, MoveDown] initialModel = Inr m"
    "cursors_ok m" by blast
  have "\<exists>m'. perform_all [MoveDown, MoveDown, CycleFocus, MoveUp, Activate, MoveDown] initialModel = Inr m'
     \<and> topCursor m' = 2 \<and> midCursor m' = 1 \<and> bottomCursor m' = 0"
    by (simp add: initialModel_def navigateDown_def navigateUp_def cycleFocus_def activateCurrent_def
          index_def Panel_defs Let_def signed_modulo_int_def)
  with m show ?thesis by auto
qed

subsection \<open>Activation\<close>

text \<open>
  Claim C8. When the focused panel has no entries (and its cursor is not negative,
  as the cursor invariant has it), \<open>activateCurrent\<close> returns the state exactly as
  it was: title, body and everything else.
\<close>

theorem activate_empty_panel:
  assumes "is_panel (focus m)"
    and "items_of (focus m) m = []"
    and "0 \<le> cursor_of (focus m) m"
  shows "activateCurrent m = Inr m"
  using assms
  by (auto simp: is_panel_def items_of_def cursor_of_def activateCurrent_def Panel_defs)

theorem activate_empty_panel_witness:
  "is_panel (focus (initialModel\<lparr>topItems := []\<rparr>))
   \<and> items_of (focus (initialModel\<lparr>topItems := []\<rparr>)) (initialModel\<lparr>topItems := []\<rparr>) = []
   \<and> 0 \<le> cursor_of (focus (initialModel\<lparr>topItems := []\<rparr>)) (initialModel\<lparr>topItems := []\<rparr>)
   \<and> activateCurrent (initialModel\<lparr>topItems := []\<rparr>) = Inr (initialModel\<lparr>topItems := []\<rparr>)"
proof -
  let ?m = "initialModel\<lparr>topItems := []\<rparr>"
  have h1: "is_panel (focus ?m)" by (simp add: is_panel_def initialModel_def)
  have h2: "items_of (focus ?m) ?m = []" by (simp add: items_of_def initialModel_def)
  have h3: "0 \<le> cursor_of (focus ?m) ?m" by (simp add: cursor_of_def initialModel_def)
  from h1 h2 h3 activate_empty_panel [OF h1 h2 h3] show ?thesis by blast
qed

text \<open>
  With a negative cursor, which no sequence of actions produces, the guard
  \<open>cursor < len(items)\<close> holds on an empty list and the index expression panics.
\<close>

lemma activate_negative_cursor_panics:
  "activateCurrent (initialModel\<lparr>topItems := [], topCursor := - 1\<rparr>) = Inl IndexOutOfRange"
  by (simp add: activateCurrent_def initialModel_def index_def Panel_defs)

lemma halfName_Clock: "halfName ''TUI Apps: Clock'' = ''Clock''"
  by code_simp

lemma halfName_Widget: "halfName ''Category: Widget'' = ''Widget''"
  by code_simp

text \<open>
  Claim C1. Activating the first entry of the first panel in the initial state: the
  title is \<open>HTOP Preview: \<close> followed by the derived name \<open>Clock\<close> (the text after the
  colon of \<open>TUI Apps: Clock\<close>), but the body is the synthetic block of
  \<open>renderHTOPPreview\<close> and not the entry's description \<open>A terminal clock widget\<close>;
  the repository's test \<open>TestInitialActivationTop\<close>, which expects the description,
  fails on this code.
\<close>

theorem first_activation_ignores_description:
  "activateCurrent initialModel =
     Inr (initialModel\<lparr>rightTitle := ''HTOP Preview: Clock'',
                       rightBody := renderHTOPPreview ''Clock''\<rparr>)
   \<and> Description (topItems initialModel ! 0) = ''A terminal clock widget''
   \<and> renderHTOPPreview ''Clock'' \<noteq> ''A terminal clock widget''
   \<and> TestInitialActivationTop = False"
proof -
  have a: "activateCurrent initialModel =
     Inr (initialModel\<lparr>rightTitle := ''HTOP Preview: Clock'',
                       rightBody := renderHTOPPreview ''Clock''\<rparr>)"
    by (simp add: activateCurrent_def initialModel_def index_def halfName_Clock Panel_defs Let_def)
  have b: "Description (topItems initialModel ! 0) = ''A terminal clock widget''"
    by (simp add: initialModel_def)
  have c: "renderHTOPPreview ''Clock'' \<noteq> ''A terminal clock widget''"
    by (simp add: renderHTOPPreview_def)
  have d: "TestInitialActivationTop = False"
    by (simp add: TestInitialActivationTop_def a)
  from a b c d show ?thesis by blast
qed

section \<open>Properties of the two-panel list variant\<close>

lemma Update_list_down:
  "Update_list m (KeyMsg ''down'') =
     (if panel m = NavigationPanel then
        (if navCursor m < int (length (navItems m)) - 1
         then (m\<lparr>navCursor := navCursor m + 1\<rparr>, None) else (m, None))
      else if panel m = MainPanel then
        (if mainCursor m < int (length (choices m)) - 1
         then (m\<lparr>mainCursor := mainCursor m + 1\<rparr>, None) else (m, None))
      else (m, None))"
  by (simp add: Update_list_def)

lemma Update_list_tab:
  "Update_list m (KeyMsg ''tab'') =
     (if panel m = NavigationPanel then
        (if mainCursor m \<ge> int (length (choices m)) \<and> length (choices m) > 0
         then (m\<lparr>panel := MainPanel, mainCursor := int (length (choices m)) - 1\<rparr>, None)
         else (m\<lparr>panel := MainPanel\<rparr>, None))
      else if panel m = MainPanel then
        (if navCursor m \<ge> int (length (navItems m)) \<and> length (navItems m) > 0
         then (m\<lparr>panel := NavigationPanel, navCursor := int (length (navItems m)) - 1\<rparr>, None)
         else (m\<lparr>panel := NavigationPanel\<rparr>, None))
      else (m, None))"
  by (simp add: Update_list_def Let_def)

text \<open>
  The same saturation as in claim C5 holds for the key \<open>down\<close> of this variant, in
  the main panel and in the navigation panel.
\<close>

lemma press_down_main:
  "panel m = MainPanel \<Longrightarrow> mainCursor m \<le> int (length (choices m)) - 1 \<Longrightarrow>
   mainCursor (press ''down'' n m) = min (mainCursor m + int n) (int (length (choices m)) - 1)"
proof (induction n arbitrary: m)
  case 0
  then show ?case by simp
next
  case (Suc n)
  show ?case
  proof (cases "mainCursor m < int (length (choices m)) - 1")
    case True
    let ?m' = "m\<lparr>mainCursor := mainCursor m + 1\<rparr>"
    have "press ''down'' (Suc n) m = press ''down'' n ?m'"
      using True Suc.prems by (simp add: Update_list_down list_Panel_defs)
    moreover have "mainCursor (press ''down'' n ?m') =
        min (mainCursor ?m' + int n) (int (length (choices ?m')) - 1)"
      using Suc.IH [of ?m'] True Suc.prems by simp
    ultimately show ?thesis by simp
  next
    case False
    have "press ''down'' (Suc n) m = press ''down'' n m"
      using False Suc.prems by (simp add: Update_list_down list_Panel_defs)
    then show ?thesis using Suc.IH [of m] Suc.prems False by simp
  qed
qed

lemma press_down_nav:
  "panel m = NavigationPanel \<Longrightarrow> navCursor m \<le> int (length (navItems m)) - 1 \<Longrightarrow>
   navCursor (press ''down'' n m) = min (navCursor m + int n) (int (length (navItems m)) - 1)"
proof (induction n arbitrary: m)
  case 0
  then show ?case by simp
next
  case (Suc n)
  show ?case
  proof (cases "navCursor m < int (length (navItems m)) - 1")
    case True
    let ?m' = "m\<lparr>navCursor := navCursor m + 1\<rparr>"
    have "press ''down'' (Suc n) m = press ''down'' n ?m'"
      using True Suc.prems by (simp add: Update_list_down list_Panel_defs)
    moreover have "navCursor (press ''down'' n ?m') =
        min (navCursor ?m' + int n) (int (length (navItems ?m')) - 1)"
      using Suc.IH [of ?m'] True Suc.prems by simp
    ultimately show ?thesis by simp
  next
    case False
    have "press ''down'' (Suc n) m = press ''down'' n m"
      using False Suc.prems by (simp add: Update_list_down list_Panel_defs)
    then show ?thesis using Suc.IH [of m] Suc.prems False by simp
  qed
qed

lemma press_down_saturates_list:
  "panel m = MainPanel \<Longrightarrow> choices m \<noteq> [] \<Longrightarrow> 0 \<le> mainCursor m \<Longrightarrow>
   mainCursor m < int (length (choices m)) \<Longrightarrow>
   mainCursor (press ''down'' (length (choices m)) m) = int (length (choices m)) - 1"
  "panel m = NavigationPanel \<Longrightarrow> navItems m \<noteq> [] \<Longrightarrow> 0 \<le> navCursor m \<Longrightarrow>
   navCursor m < int (length (navItems m)) \<Longrightarrow>
   navCursor (press ''down'' (length (navItems m)) m) = int (length (navItems m)) - 1"
  by (simp_all add: press_down_main press_down_nav)

text \<open>
  On a state with both cursors in range, \<open>tab\<close> changes the focus and nothing else.
\<close>

lemma tab_keeps_cursors:
  "navCursor m < int (length (navItems m)) \<Longrightarrow> mainCursor m < int (length (choices m)) \<Longrightarrow>
   navCursor (fst (Update_list m (KeyMsg ''tab''))) = navCursor m
   \<and> mainCursor (fst (Update_list m (KeyMsg ''tab''))) = mainCursor m"
  by (simp add: Update_list_tab)

lemma press_tab_twice:
  "panel m = NavigationPanel \<or> panel m = MainPanel \<Longrightarrow> panel (press ''tab'' 2 m) = panel m"
  by (auto simp: numeral_2_eq_2 Update_list_tab list_Panel_defs)


section \<open>Properties of the shell-in-a-directory helper\<close>

lemma TrimSpace_Nil: "TrimSpace [] = []"
  by code_simp

lemma TrimSpace_blank: "TrimSpace '' '' = []"
  by code_simp

lemma TrimSpace_no_break_space: "TrimSpace [CHR 0xC2, CHR 0xA0] = []"
  by code_simp

lemma TrimSpace_1: "TrimSpace ''1'' = ''1''"
  by code_simp

text \<open>
  The gate as the code has it. When the value of \<open>GO_DASH_LAUNCH_IN_DIR\<close> is not empty
  after trimming white space and the target exists and is a directory, \<open>launchInDir\<close>
  runs \<open>bash\<close> in that directory and returns what running it returns. When the
  trimmed value is empty, which covers the variable being unset, empty or all white
  space, it only prints \<open>Would launch shell in: <dir>\<close>, runs nothing and returns no
  error.
\<close>

lemma launchInDir_gate:
  "(TrimSpace (Getenv w ''GO_DASH_LAUNCH_IN_DIR'') \<noteq> [] \<and> stat w dir = Some True
      \<longrightarrow> launchInDir w r dir = (r, [Exec ''bash'' dir]))
   \<and> (TrimSpace (Getenv w ''GO_DASH_LAUNCH_IN_DIR'') = []
      \<longrightarrow> launchInDir w r dir
            = (None, [Stdout (''Would launch shell in: '' @ dir @ [newline])]))
   \<and> (environ w ''GO_DASH_LAUNCH_IN_DIR'' = None \<or> environ w ''GO_DASH_LAUNCH_IN_DIR'' = Some []
      \<longrightarrow> launchInDir w r dir
            = (None, [Stdout (''Would launch shell in: '' @ dir @ [newline])]))"
  by (auto simp: launchInDir_def Getenv_def TrimSpace_Nil Let_def)

lemma launchInDir_gate_example:
  "launchInDir \<lparr>environ = [''GO_DASH_LAUNCH_IN_DIR'' \<mapsto> ''1''], stat = [''/tmp'' \<mapsto> True]\<rparr>
     None ''/tmp'' = (None, [Exec ''bash'' ''/tmp''])
   \<and> launchInDir \<lparr>environ = Map.empty, stat = [''/tmp'' \<mapsto> True]\<rparr> None ''/tmp''
      = (None, [Stdout (''Would launch shell in: /tmp'' @ [newline])])
   \<and> launchInDir \<lparr>environ = [''GO_DASH_LAUNCH_IN_DIR'' \<mapsto> [CHR 0xC2, CHR 0xA0]],
                   stat = [''/tmp'' \<mapsto> True]\<rparr> None ''/tmp''
      = (None, [Stdout (''Would launch shell in: /tmp'' @ [newline])])"
  by (simp add: launchInDir_def Getenv_def TrimSpace_Nil TrimSpace_1 TrimSpace_no_break_space)

text \<open>
  Claim C7. The claim, and the comment of \<open>launchInDir\<close> itself, say that a non-empty
  value of the variable makes the helper launch the shell. The code tests the
  trimmed value: with \<open>GO_DASH_LAUNCH_IN_DIR\<close> set to one space, which is not empty,
  and the target an existing directory, it runs nothing, prints the dry-run message
  and returns no error.
\<close>

theorem launchInDir_blank_value_dry_run:
  "Getenv \<lparr>environ = [''GO_DASH_LAUNCH_IN_DIR'' \<mapsto> '' ''], stat = [''/tmp'' \<mapsto> True]\<rparr>
     ''GO_DASH_LAUNCH_IN_DIR'' = '' ''
   \<and> stat \<lparr>environ = [''GO_DASH_LAUNCH_IN_DIR'' \<mapsto> '' ''], stat = [''/tmp'' \<mapsto> True]\<rparr>
        ''/tmp'' = Some True
   \<and> launchInDir \<lparr>environ = [''GO_DASH_LAUNCH_IN_DIR'' \<mapsto> '' ''], stat = [''/tmp'' \<mapsto> True]\<rparr>
        None ''/tmp''
      = (None, [Stdout (''Would launch shell in: /tmp'' @ [newline])])"
  by (simp add: Getenv_def launchInDir_def TrimSpace_blank)

section \<open>Properties of the application launcher\<close>

subsection \<open>Traces\<close>

lemma owner_after_append:
  "owner_after own (tr @ tr') = owner_after (owner_after own tr) tr'"
  by (induction own tr rule: owner_after.induct) simp_all

lemma spawn_ok_append:
  "spawn_ok own (tr @ tr') = (spawn_ok own tr \<and> spawn_ok (owner_after own tr) tr')"
  by (induction own tr rule: spawn_ok.induct) simp_all

lemma logged_append: "logged (tr @ tr') = logged tr @ logged tr'"
  by (simp add: logged_def)

lemma owner_after_runApplication: "owner_after own (runApplication app r) = own"
  by (cases r) (simp_all add: runApplication_def)

lemma spawn_ok_runApplication: "spawn_ok own (runApplication app r) = (\<not> own)"
  by (cases r) (simp_all add: runApplication_def)

lemma dispatch_frame:
  "dispatch k s = (e, s') \<Longrightarrow> trace s' = trace s \<and> mode s' = mode s"
  by (cases k)
     (auto simp: dispatch_def quit_def cursorDown_def cursorUp_def runApp_def
        refreshDashboard_def split: if_splits option.splits)

lemma layout_frame: "trace (layout s) = trace s \<and> mode (layout s) = mode s"
  by (simp add: layout_def Let_def)

subsection \<open>Classification of the child's exit\<close>

lemma logged_runApplication_signal:
  "sig = SIGINT \<or> sig = SIGTERM \<Longrightarrow>
   logged (runApplication app (ExitError (Signaled sig))) = []"
  by (auto simp: runApplication_def logged_def)

lemma logged_runApplication_failure:
  "r \<noteq> WaitOk \<Longrightarrow> r \<noteq> ExitError (Signaled SIGINT) \<Longrightarrow> r \<noteq> ExitError (Signaled SIGTERM) \<Longrightarrow>
   \<exists>l. logged (runApplication app r) = [l]"
proof (cases r)
  case (ExitError st)
  assume "r \<noteq> ExitError (Signaled SIGINT)" "r \<noteq> ExitError (Signaled SIGTERM)"
  with ExitError show ?thesis
    by (cases st) (auto simp: runApplication_def logged_def)
qed (auto simp: runApplication_def logged_def)

text \<open>
  The launcher that defers the command to \<open>main\<close>, while it waits for the child it
  has launched (\<open>main\<close> is in \<open>runApplication\<close>): if the child was ended by SIGINT or
  SIGTERM, nothing is logged. If it ended in any other failure (it could not be
  started, it exited with an error status, another signal ended it, or waiting
  failed), exactly one line is logged. In every case \<open>main\<close> goes on to call \<open>run()\<close>
  again, it neither exits nor panics, and the UI is interactive again once
  \<open>gocui.NewGui\<close> has succeeded.
\<close>

lemma launcher_exit_classification:
  assumes "mode s = Launching app"
  shows "(r = ExitError (Signaled SIGINT) \<or> r = ExitError (Signaled SIGTERM)
            \<longrightarrow> logged (trace (step s (ChildDone r))) = logged (trace s))
       \<and> (r \<noteq> WaitOk \<and> r \<noteq> ExitError (Signaled SIGINT) \<and> r \<noteq> ExitError (Signaled SIGTERM)
            \<longrightarrow> (\<exists>l. logged (trace (step s (ChildDone r))) = logged (trace s) @ [l]))
       \<and> mode (step s (ChildDone r)) = Starting
       \<and> mode (step (step s (ChildDone r)) (NewGui True)) = Interactive"
proof -
  have st: "step s (ChildDone r) = s\<lparr>trace := trace s @ runApplication app r, mode := Starting\<rparr>"
    using assms by (simp add: step_def)
  have 1: "r = ExitError (Signaled SIGINT) \<or> r = ExitError (Signaled SIGTERM)
            \<longrightarrow> logged (trace (step s (ChildDone r))) = logged (trace s)"
    using logged_runApplication_signal [of _ app] by (auto simp: st logged_append)
  have 2: "r \<noteq> WaitOk \<and> r \<noteq> ExitError (Signaled SIGINT) \<and> r \<noteq> ExitError (Signaled SIGTERM)
            \<longrightarrow> (\<exists>l. logged (trace (step s (ChildDone r))) = logged (trace s) @ [l])"
    using logged_runApplication_failure [of r app] by (auto simp: st logged_append)
  have 3: "mode (step s (ChildDone r)) = Starting"
    by (simp add: st)
  have 4: "mode (step (step s (ChildDone r)) (NewGui True)) = Interactive"
    unfolding st by (simp add: step_def layout_frame)
  from 1 2 3 4 show ?thesis by blast
qed

text \<open>Pressing Enter on the first application of a one-entry list.\<close>

lemma exec_enter:
  "exec (main_start [\<lparr>Name = ''LazyGit'', Command = ''lazygit''\<rparr>] Map.empty)
      [NewGui True, Key KeyEnter]
   = \<lparr>applications = [\<lparr>Name = ''LazyGit'', Command = ''lazygit''\<rparr>], pendingApp = None,
      cursorY = 2,
      views = [''list'' \<mapsto> [], ''dashboard'' \<mapsto> [], ''footer'' \<mapsto> []],
      currentView = Some ''list'', files = Map.empty, unwritable = {},
      mode = Launching \<lparr>Name = ''LazyGit'', Command = ''lazygit''\<rparr>,
      trace = [GuiOpen, GuiClose]\<rparr>"
  by (simp add: exec_def step_def main_start_def layout_def dispatch_def runApp_def
        getAppFromCursor_def after_run_def Let_def)

lemma launcher_exit_classification_example:
  "mode (exec (main_start [\<lparr>Name = ''LazyGit'', Command = ''lazygit''\<rparr>] Map.empty)
           [NewGui True, Key KeyEnter])
     = Launching \<lparr>Name = ''LazyGit'', Command = ''lazygit''\<rparr>
   \<and> logged (trace (exec (main_start [\<lparr>Name = ''LazyGit'', Command = ''lazygit''\<rparr>] Map.empty)
           [NewGui True, Key KeyEnter, ChildDone (ExitError (Signaled SIGINT))])) = []
   \<and> (\<exists>l. logged (trace (exec (main_start [\<lparr>Name = ''LazyGit'', Command = ''lazygit''\<rparr>] Map.empty)
           [NewGui True, Key KeyEnter, ChildDone (ExitError (Exited 1))])) = [l])
   \<and> mode (exec (main_start [\<lparr>Name = ''LazyGit'', Command = ''lazygit''\<rparr>] Map.empty)
           [NewGui True, Key KeyEnter, ChildDone (ExitError (Exited 1)), NewGui True])
     = Interactive"
proof -
  let ?s = "exec (main_start [\<lparr>Name = ''LazyGit'', Command = ''lazygit''\<rparr>] Map.empty)
              [NewGui True, Key KeyEnter]"
  let ?app = "\<lparr>Name = ''LazyGit'', Command = ''lazygit''\<rparr>"
  have h: "mode ?s = Launching ?app" by (simp add: exec_enter)
  have l0: "logged (trace ?s) = []" by (simp add: exec_enter logged_def)
  have e1: "exec (main_start [?app] Map.empty) [NewGui True, Key KeyEnter, ChildDone r]
              = step ?s (ChildDone r)" for r
    by (simp add: exec_def)
  have e2: "exec (main_start [?app] Map.empty) [NewGui True, Key KeyEnter, ChildDone r, NewGui True]
              = step (step ?s (ChildDone r)) (NewGui True)" for r
    by (simp add: exec_def)
  note a = launcher_exit_classification [OF h, of "ExitError (Signaled SIGINT)"]
  note b = launcher_exit_classification [OF h, of "ExitError (Exited 1)"]
  have a1: "logged (trace (step ?s (ChildDone (ExitError (Signaled SIGINT))))) = []"
    using a l0 by simp
  have b1: "\<exists>l. logged (trace (step ?s (ChildDone (ExitError (Exited 1))))) = [l]"
    using b l0 by simp
  have b2: "mode (step (step ?s (ChildDone (ExitError (Exited 1)))) (NewGui True)) = Interactive"
    using b by blast
  from h a1 b1 b2 show ?thesis unfolding e1 e2 by blast
qed

text \<open>
  The earlier launcher has no signal forwarding and no classification: every error
  of \<open>cmd.Run()\<close> is logged; it too goes on to \<open>run()\<close>.
\<close>

lemma inline_failure_logged:
  assumes "mode s = Launching app" and "getAppFromCursor s = Some app"
  shows "(r \<noteq> WaitOk \<longrightarrow>
            logged (trace (step_inline s (ChildDone r)))
              = logged (trace s) @ [''Error running command:''])
       \<and> mode (step_inline s (ChildDone r)) = Starting"
  using assms
  by (simp add: step_inline_def runApp_inline_def after_run_inline_def Let_def
        logged_def)


subsection \<open>Releasing the terminal before the child starts\<close>

text \<open>
  The launcher that defers the command to \<open>main\<close>: along every run, whatever the
  inputs, a command is started only while the \<open>Gui\<close> is closed.
\<close>

lemma step_spawn_ok:
  assumes "spawn_ok False (trace s) \<and> (owner_after False (trace s) \<longleftrightarrow> mode s = Interactive)"
  shows "spawn_ok False (trace (step s i))
       \<and> (owner_after False (trace (step s i)) \<longleftrightarrow> mode (step s i) = Interactive)"
proof (cases "mode s")
  case Starting
  with assms show ?thesis
    by (cases i) (auto simp: step_def layout_frame spawn_ok_append owner_after_append)
next
  case Interactive
  show ?thesis
  proof (cases i)
    case (Key k)
    obtain e s' where d: "dispatch k s = (e, s')" by (cases "dispatch k s")
    from dispatch_frame [OF d] have f: "trace s' = trace s" "mode s' = mode s" by simp_all
    show ?thesis using assms Interactive Key d f
      by (cases e)
         (auto simp: step_def after_run_def spawn_ok_append owner_after_append
            split: option.splits)
  qed (use assms Interactive in \<open>simp_all add: step_def\<close>)
next
  case (Launching app)
  with assms show ?thesis
    by (cases i)
       (auto simp: step_def spawn_ok_append owner_after_append owner_after_runApplication
          spawn_ok_runApplication)
next
  case Finished
  with assms show ?thesis by (simp add: step_def)
next
  case Panicked
  with assms show ?thesis by (simp add: step_def)
qed

lemma exec_spawn_ok:
  "spawn_ok False (trace s) \<and> (owner_after False (trace s) \<longleftrightarrow> mode s = Interactive) \<Longrightarrow>
   spawn_ok False (trace (exec s inputs))
   \<and> (owner_after False (trace (exec s inputs)) \<longleftrightarrow> mode (exec s inputs) = Interactive)"
  unfolding exec_def
proof (induction inputs arbitrary: s)
  case Nil
  then show ?case by simp
next
  case (Cons i inputs)
  from Cons.IH [OF step_spawn_ok [OF Cons.prems, of i]] show ?case by simp
qed

lemma launcher_releases_terminal_first:
  "spawn_ok False (trace (exec (main_start apps fs) inputs))"
proof -
  have "spawn_ok False (trace (main_start apps fs))
        \<and> (owner_after False (trace (main_start apps fs))
             \<longleftrightarrow> mode (main_start apps fs) = Interactive)"
    by (simp add: main_start_def)
  from exec_spawn_ok [OF this] show ?thesis by simp
qed

text \<open>
  Claim C3. The earlier launcher breaks it: its \<open>runApp\<close> runs the command inside the
  key handler, before the main loop has returned and the deferred \<open>g.Close()\<close> has
  run. On Enter over the first application the command is started between the
  opening and the closing of the \<open>Gui\<close>.
\<close>

theorem inline_launcher_spawns_inside_ui:
  "trace (exec_inline (main_start [\<lparr>Name = ''LazyGit'', Command = ''lazygit''\<rparr>] Map.empty)
            [NewGui True, Key KeyEnter, ChildDone WaitOk])
     = [GuiOpen, CmdStart ''lazygit'', GuiClose]
   \<and> spawn_ok False [GuiOpen, CmdStart ''lazygit'', GuiClose] = False
   \<and> trace (exec (main_start [\<lparr>Name = ''LazyGit'', Command = ''lazygit''\<rparr>] Map.empty)
            [NewGui True, Key KeyEnter, ChildDone WaitOk])
     = [GuiOpen, GuiClose, CmdStart ''lazygit'']"
  by (simp add: exec_inline_def step_inline_def main_start_def layout_inline_def
        getAppFromCursor_def runApp_inline_def after_run_inline_def dispatch_inline_def
        exec_def step_def layout_def dispatch_def runApp_def after_run_def runApplication_def
        Let_def)

subsection \<open>Adding an application\<close>

text \<open>The loop of \<open>trimViewText\<close> removes exactly the trailing line feeds and carriage returns.\<close>

lemma trimViewText_eq:
  "trimViewText t = rev (dropWhile (\<lambda>c. c = newline \<or> c = carriage_return) (rev t))"
proof (induction t rule: trimViewText.induct)
  case (1 t)
  show ?case
  proof (cases "t = []")
    case True
    then show ?thesis by (simp add: trimViewText.simps)
  next
    case False
    then have sn: "t = butlast t @ [last t]" by simp
    have rv: "rev t = last t # rev (butlast t)"
      by (subst sn) simp
    show ?thesis
    proof (cases "last t = newline \<or> last t = carriage_return")
      case True
      have "trimViewText t = trimViewText (butlast t)"
        using False True by (subst trimViewText.simps) (simp add: Let_def)
      also have "\<dots> = rev (dropWhile (\<lambda>c. c = newline \<or> c = carriage_return) (rev (butlast t)))"
        using "1.IH" [OF _ refl True] False by simp
      finally show ?thesis using True by (simp add: rv)
    next
      case F2: False
      have "trimViewText t = t"
        using False F2 by (subst trimViewText.simps) (simp add: Let_def)
      moreover have "dropWhile (\<lambda>c. c = newline \<or> c = carriage_return) (rev t) = rev t"
        using F2 by (simp add: rv)
      ultimately show ?thesis by simp
    qed
  qed
qed

text \<open>
  Claim C10. In the add-entry dialog, when the name field or the command field is
  empty after its trailing line feeds and carriage returns have been removed,
  \<open>saveNewApp\<close> returns \<open>nil\<close> and leaves the whole state as it was: nothing is
  appended to \<open>applications\<close>, no file is written, nothing is logged and the dialog
  stays open.
\<close>

theorem blank_field_save_is_noop:
  assumes "views s ''add_name'' = Some nameV" "views s ''add_cmd'' = Some cmdV"
    "trimViewText nameV = [] \<or> trimViewText cmdV = []"
  shows "saveNewApp marshal s = (None, s)"
  using assms by (auto simp: saveNewApp_def Let_def)

theorem blank_field_save_is_noop_witness:
  "views ((main_start [] Map.empty)\<lparr>views := [''add_name'' \<mapsto> [newline], ''add_cmd'' \<mapsto> ''htop'' @ [newline]]\<rparr>) ''add_name'' = Some [newline]
   \<and> views ((main_start [] Map.empty)\<lparr>views := [''add_name'' \<mapsto> [newline], ''add_cmd'' \<mapsto> ''htop'' @ [newline]]\<rparr>) ''add_cmd'' = Some (''htop'' @ [newline])
   \<and> trimViewText [newline] = []
   \<and> saveNewApp (\<lambda>c. Inl JSONError)
        ((main_start [] Map.empty)\<lparr>views := [''add_name'' \<mapsto> [newline], ''add_cmd'' \<mapsto> ''htop'' @ [newline]]\<rparr>)
      = (None, (main_start [] Map.empty)\<lparr>views := [''add_name'' \<mapsto> [newline], ''add_cmd'' \<mapsto> ''htop'' @ [newline]]\<rparr>)"
proof -
  let ?s = "(main_start [] Map.empty)\<lparr>views := [''add_name'' \<mapsto> [newline], ''add_cmd'' \<mapsto> ''htop'' @ [newline]]\<rparr>"
  have h1: "views ?s ''add_name'' = Some [newline]" by simp
  have h2: "views ?s ''add_cmd'' = Some (''htop'' @ [newline])" by simp
  have t: "trimViewText [newline] = []" by (simp add: trimViewText_eq)
  then have h3: "trimViewText [newline] = [] \<or> trimViewText (''htop'' @ [newline]) = []" by simp
  from h1 h2 t blank_field_save_is_noop [OF h1 h2 h3, of "\<lambda>c. Inl JSONError"] show ?thesis by blast
qed

lemma deleteViews_frame:
  "applications (deleteViews ns s) = applications s \<and> files (deleteViews ns s) = files s
   \<and> trace (deleteViews ns s) = trace s"
  by (induction ns arbitrary: s) simp_all

lemma cancelAddModal_frame:
  "applications (snd (cancelAddModal s)) = applications s \<and> files (snd (cancelAddModal s)) = files s
   \<and> trace (snd (cancelAddModal s)) = trace s"
  by (simp add: cancelAddModal_def SetCurrentView_def deleteViews_frame)

text \<open>
  Claim C4. Let the two input fields hold a name and a command that are not empty
  after trimming, let \<open>config.json\<close> be writable, and let the JSON library encode the
  new configuration to a text that it decodes to the same configuration. Then
  \<open>loadConfig\<close> on \<open>config.json\<close>, in any state that has nothing of the state after
  \<open>saveNewApp\<close> but its files (a later start of the program, say), yields exactly the
  former list of applications, in its order, followed by the new entry; and that
  is also the list in memory after \<open>saveNewApp\<close>.
\<close>

theorem save_then_reload:
  assumes "views s ''add_name'' = Some nameV" "views s ''add_cmd'' = Some cmdV"
    "trimViewText nameV \<noteq> []" "trimViewText cmdV \<noteq> []"
    "''config.json'' \<notin> unwritable s"
    "marshal \<lparr>Applications = applications s @ [\<lparr>Name = trimViewText nameV, Command = trimViewText cmdV\<rparr>]\<rparr> = Inr bytes"
    "unmarshal bytes = Inr \<lparr>Applications = applications s @ [\<lparr>Name = trimViewText nameV, Command = trimViewText cmdV\<rparr>]\<rparr>"
    "files s' = files (snd (saveNewApp marshal s))"
  shows "loadConfig unmarshal ''config.json'' s'
       = Inr \<lparr>Applications = applications s @ [\<lparr>Name = trimViewText nameV, Command = trimViewText cmdV\<rparr>]\<rparr>
      \<and> files s' ''config.json'' = Some bytes
      \<and> applications (snd (saveNewApp marshal s)) = applications s @ [\<lparr>Name = trimViewText nameV, Command = trimViewText cmdV\<rparr>]"
proof -
  let ?new = "\<lparr>Name = trimViewText nameV, Command = trimViewText cmdV\<rparr>"
  let ?s1 = "s\<lparr>applications := applications s @ [?new]\<rparr>"
  let ?s2 = "?s1\<lparr>files := (files ?s1)(''config.json'' \<mapsto> bytes)\<rparr>"
  have w: "writeConfig marshal ''config.json'' (applications ?s1) ?s1 = (None, ?s2)"
    using assms(5,6) by (simp add: writeConfig_def WriteFile_def)
  have sv: "saveNewApp marshal s = (None, snd (cancelAddModal ?s2))"
    using assms(1-4) w by (simp add: saveNewApp_def Let_def split: prod.splits)
  have f: "files s' = (files s)(''config.json'' \<mapsto> bytes)"
    using assms(8) by (simp add: sv cancelAddModal_frame)
  have a: "applications (snd (saveNewApp marshal s)) = applications s @ [?new]"
    by (simp add: sv cancelAddModal_frame)
  from f a assms(7) show ?thesis
    by (simp add: loadConfig_def)
qed

text \<open>
  The reload in the witness is done by a fresh start of the launcher, with an empty
  list in memory, on the files that \<open>saveNewApp\<close> has left.
\<close>

theorem save_then_reload_witness:
  "loadConfig
     (\<lambda>f. if f = ''{applications: [LazyGit/lazygit, Htop/htop -d 5]}''
          then Inr \<lparr>Applications = [\<lparr>Name = ''LazyGit'', Command = ''lazygit''\<rparr>, \<lparr>Name = ''Htop'', Command = ''htop -d 5''\<rparr>]\<rparr>
          else Inl JSONError)
     ''config.json''
     (main_start []
        (files (snd (saveNewApp
          (\<lambda>c. if c = \<lparr>Applications = [\<lparr>Name = ''LazyGit'', Command = ''lazygit''\<rparr>, \<lparr>Name = ''Htop'', Command = ''htop -d 5''\<rparr>]\<rparr>
               then Inr ''{applications: [LazyGit/lazygit, Htop/htop -d 5]}'' else Inl JSONError)
          ((main_start [\<lparr>Name = ''LazyGit'', Command = ''lazygit''\<rparr>] Map.empty)
             \<lparr>views := [''list'' \<mapsto> [], ''add_name'' \<mapsto> ''Htop'' @ [newline],
                        ''add_cmd'' \<mapsto> ''htop -d 5'' @ [carriage_return, newline]]\<rparr>)))))
   = Inr \<lparr>Applications = [\<lparr>Name = ''LazyGit'', Command = ''lazygit''\<rparr>, \<lparr>Name = ''Htop'', Command = ''htop -d 5''\<rparr>]\<rparr>"
proof -
  let ?s = "(main_start [\<lparr>Name = ''LazyGit'', Command = ''lazygit''\<rparr>] Map.empty)
           \<lparr>views := [''list'' \<mapsto> [], ''add_name'' \<mapsto> ''Htop'' @ [newline],
                      ''add_cmd'' \<mapsto> ''htop -d 5'' @ [carriage_return, newline]]\<rparr>"
  let ?conf = "\<lparr>Applications = [\<lparr>Name = ''LazyGit'', Command = ''lazygit''\<rparr>, \<lparr>Name = ''Htop'', Command = ''htop -d 5''\<rparr>]\<rparr>"
  let ?file = "''{applications: [LazyGit/lazygit, Htop/htop -d 5]}''"
  let ?marshal = "\<lambda>c. if c = ?conf then Inr ?file else Inl JSONError"
  let ?unmarshal = "\<lambda>f. if f = ?file then Inr ?conf else Inl JSONError"
  let ?s' = "main_start [] (files (snd (saveNewApp ?marshal ?s)))"
  have tn: "trimViewText (''Htop'' @ [newline]) = ''Htop''"
    by (simp add: trimViewText_eq newline_def carriage_return_def)
  have tc: "trimViewText (''htop -d 5'' @ [carriage_return, newline]) = ''htop -d 5''"
    by (simp add: trimViewText_eq newline_def carriage_return_def)
  have h1: "views ?s ''add_name'' = Some (''Htop'' @ [newline])" by simp
  have h2: "views ?s ''add_cmd'' = Some (''htop -d 5'' @ [carriage_return, newline])" by simp
  have h3: "trimViewText (''Htop'' @ [newline]) \<noteq> []" using tn by simp
  have h4: "trimViewText (''htop -d 5'' @ [carriage_return, newline]) \<noteq> []" using tc by simp
  have h5: "''config.json'' \<notin> unwritable ?s" by (simp add: main_start_def)
  have h6: "?marshal \<lparr>Applications = applications ?s @ [\<lparr>Name = trimViewText (''Htop'' @ [newline]),
       Command = trimViewText (''htop -d 5'' @ [carriage_return, newline])\<rparr>]\<rparr> = Inr ?file"
    using tn tc by (simp add: main_start_def)
  have h7: "?unmarshal ?file = Inr \<lparr>Applications = applications ?s @ [\<lparr>Name = trimViewText (''Htop'' @ [newline]),
       Command = trimViewText (''htop -d 5'' @ [carriage_return, newline])\<rparr>]\<rparr>"
    using tn tc by (simp add: main_start_def)
  have h8: "files ?s' = files (snd (saveNewApp ?marshal ?s))"
    by (simp add: main_start_def)
  from save_then_reload [where marshal = "?marshal" and unmarshal = "?unmarshal" and bytes = "?file"
      and s' = "?s'", OF h1 h2 h3 h4 h5 h6 h7 h8]
  have "loadConfig ?unmarshal ''config.json'' ?s'
          = Inr \<lparr>Applications = applications ?s @ [\<lparr>Name = trimViewText (''Htop'' @ [newline]),
              Command = trimViewText (''htop -d 5'' @ [carriage_return, newline])\<rparr>]\<rparr>"
    by blast
  with tn tc show ?thesis
    by (simp add: main_start_def)
qed

end
